theory Spec2Isabelle
  imports Complex_Main "HOL-Library.Word" "HOL-Library.Char_ord" "HOL-Library.List_Lexorder"
begin

section \<open>Warehouse management: the category index and its product lists\<close>

text \<open>
  The program (\<^verbatim>\<open>main.c\<close>) keeps its categories in an unbalanced binary search tree
  keyed by the category name, and the products of a category in a singly linked list.

  Modelling decisions.
  \<^item> A linked list of \<^verbatim>\<open>Product\<close> nodes is a HOL list of records, head first; the
    \<^verbatim>\<open>next\<close> pointer is the list structure. A pointer to a node of a list is its
    position in the list, the null pointer is \<open>None\<close>.
  \<^item> The tree of \<^verbatim>\<open>CategoryNode\<close>s is a datatype; \<open>NULL\<close> is the null pointer.
  \<^item> C's \<^verbatim>\<open>int\<close> is a 32-bit word, \<open>c_int\<close>. Addition and subtraction wrap around, as
    in the compiled program; \<open>sint\<close> reads a word as the signed number it stands
    for, and every comparison of two \<^verbatim>\<open>int\<close>s in the source is a comparison of their
    \<open>sint\<close> values.
  \<^item> C's \<^verbatim>\<open>double\<close> is a real number or one of the special values that a division
    by zero produces. The quotient of two \<^verbatim>\<open>int\<close>s is rounded to the nearest number
    with a 53-bit significand, ties to even, as an IEEE 754 binary64 division is; the
    conversion of an \<^verbatim>\<open>int\<close> to \<^verbatim>\<open>double\<close> is exact. The exponent range of binary64 is
    left out (no quotient of two 32-bit integers leaves it), and so is the sign of a
    zero.
  \<^item> C strings are \<open>string\<close>; the fixed sizes of the \<^verbatim>\<open>char[50]\<close> buffers are left out.
  \<^item> What a function prints is the list of its output lines, in order.
\<close>

subsection \<open>Data\<close>

type_synonym c_int = "32 word"

record Product =
  productId :: c_int
  name :: string
  quantity :: c_int
  category :: string

datatype CategoryNode =
  NULL
| Node string "Product list" CategoryNode CategoryNode
  \<comment> \<open>category, productsHead, left, right\<close>

datatype double = Finite real | PosInf | NegInf | NaN

record AnalysisResult =
  lowStockProducts :: "Product list"
  highStockProducts :: "Product list"
  maxStockProduct :: "Product option"
  minStockProduct :: "Product option"
  totalQuantity :: c_int
  averageQuantity :: double

text \<open>
  The lines the program prints, one constructor for each \<^verbatim>\<open>printf\<close> format. An
  argument printed with \<^verbatim>\<open>%d\<close> is the \<open>c_int\<close> printed; the number shown is its
  \<open>sint\<close> value.
\<close>

datatype message =
  QuantityUpdated c_int
    \<comment> \<open>\<^verbatim>\<open>Product quantity updated to %d.\<close>\<close>
| Decreased c_int c_int
    \<comment> \<open>\<^verbatim>\<open>Decreased quantity by %d. New quantity: %d\<close>\<close>
| NotEnoughStock c_int c_int
    \<comment> \<open>\<^verbatim>\<open>Not enough stock to decrease by %d. Current stock: %d\<close>\<close>
| CategoryLine string
    \<comment> \<open>\<^verbatim>\<open>Category: %s\<close>\<close>
| ProductLine c_int string c_int
    \<comment> \<open>\<^verbatim>\<open>  Product ID: %d, Name: %s, Quantity: %d\<close>\<close>
| ReportHeader
    \<comment> \<open>\<^verbatim>\<open>Product ID, Product Name, Product Quantity, Product Category\<close>\<close>
| ReportRow c_int string c_int string
    \<comment> \<open>\<^verbatim>\<open>%d, %s, %d, %s\<close>\<close>
| ProductAdded
    \<comment> \<open>\<^verbatim>\<open>Product added successfully.\<close>\<close>
| CategoryDoesNotExist
    \<comment> \<open>\<^verbatim>\<open>Category does not exist. Please create the category first.\<close>\<close>

subsection \<open>String comparison\<close>

text \<open>
  \<^verbatim>\<open>strcmp\<close> of the C library: the strings are compared byte by byte as unsigned
  characters, and only the sign of the result is specified.
\<close>

fun strcmp :: "string \<Rightarrow> string \<Rightarrow> int" where
  "strcmp [] [] = 0"
| "strcmp [] (y # ys) = - 1"
| "strcmp (x # xs) [] = 1"
| "strcmp (x # xs) (y # ys) =
     (if x = y then strcmp xs ys
      else if (of_char x :: nat) < of_char y then - 1 else 1)"

subsection \<open>The category index\<close>

fun insertCategory :: "CategoryNode \<Rightarrow> string \<Rightarrow> CategoryNode" where
  "insertCategory NULL c = Node c [] NULL NULL"
| "insertCategory (Node k ps l r) c =
     (if strcmp c k < 0 then Node k ps (insertCategory l c) r
      else if strcmp c k > 0 then Node k ps l (insertCategory r c)
      else Node k ps l r)"

fun displayProducts :: "Product list \<Rightarrow> message list" where
  "displayProducts [] = []"
| "displayProducts (p # rest) =
     ProductLine (productId p) (name p) (quantity p) # displayProducts rest"

fun displayCategories :: "CategoryNode \<Rightarrow> message list" where
  "displayCategories NULL = []"
| "displayCategories (Node k ps l r) =
     displayCategories l @ [CategoryLine k] @ displayProducts ps @ displayCategories r"

text \<open>
  \<^verbatim>\<open>deleteCategory\<close>. In the two-child case a loop walks from the right child to its
  leftmost node; \<open>leftmost k l\<close> is that loop at a node with name \<open>k\<close> and left child
  \<open>l\<close>, and returns the name it ends at. Only the name is copied into the node
  (\<^verbatim>\<open>strcpy(node->category, temp->category)\<close>): the node keeps its own product list.
\<close>

fun leftmost :: "string \<Rightarrow> CategoryNode \<Rightarrow> string" where
  "leftmost k NULL = k"
| "leftmost k (Node k' ps l r) = leftmost k' l"

fun deleteCategory :: "CategoryNode \<Rightarrow> string \<Rightarrow> CategoryNode" where
  "deleteCategory NULL c = NULL"
| "deleteCategory (Node k ps l r) c =
     (if strcmp c k < 0 then Node k ps (deleteCategory l c) r
      else if strcmp c k > 0 then Node k ps l (deleteCategory r c)
      else
        (case l of
           NULL \<Rightarrow> r
         | Node lk lps ll lr \<Rightarrow>
             (case r of
                NULL \<Rightarrow> l
              | Node rk rps rl rr \<Rightarrow>
                  (let s = leftmost rk rl in Node s ps l (deleteCategory r s)))))"

text \<open>\<^verbatim>\<open>findCategory\<close> returns the node found (a subtree), or \<open>NULL\<close>.\<close>

fun findCategory :: "CategoryNode \<Rightarrow> string \<Rightarrow> CategoryNode" where
  "findCategory NULL c = NULL"
| "findCategory (Node k ps l r) c =
     (if strcmp c k = 0 then Node k ps l r
      else if strcmp c k < 0 then findCategory l c
      else findCategory r c)"

subsection \<open>Product lists\<close>

text \<open>
  \<^verbatim>\<open>insertProduct\<close> has no parameter for the category: it fills the \<^verbatim>\<open>category\<close>
  field with \<^verbatim>\<open>strcpy(newProduct->category, name)\<close>.
\<close>

definition insertProduct :: "Product list \<Rightarrow> c_int \<Rightarrow> string \<Rightarrow> c_int \<Rightarrow> Product list" where
  "insertProduct head pid pname qty =
     \<lparr>productId = pid, name = pname, quantity = qty, category = pname\<rparr> # head"

text \<open>\<^verbatim>\<open>findProduct\<close> returns a pointer to a node of the list: its position.\<close>

fun findProduct :: "Product list \<Rightarrow> c_int \<Rightarrow> nat option" where
  "findProduct [] pid = None"
| "findProduct (p # rest) pid =
     (if productId p = pid then Some 0 else map_option Suc (findProduct rest pid))"

text \<open>
  Case 3 of the menu adds a product: it looks the category up and, when it is there,
  stores the new list head in the node found. \<open>setProductsHead\<close> is that store,
  through the pointer that \<^verbatim>\<open>findCategory\<close> returns.
\<close>

fun setProductsHead :: "CategoryNode \<Rightarrow> string \<Rightarrow> Product list \<Rightarrow> CategoryNode" where
  "setProductsHead NULL c ps' = NULL"
| "setProductsHead (Node k ps l r) c ps' =
     (if strcmp c k = 0 then Node k ps' l r
      else if strcmp c k < 0 then Node k ps (setProductsHead l c ps') r
      else Node k ps l (setProductsHead r c ps'))"

definition addProduct ::
    "CategoryNode \<Rightarrow> string \<Rightarrow> c_int \<Rightarrow> string \<Rightarrow> c_int \<Rightarrow> CategoryNode \<times> message list" where
  "addProduct rootNode c pid pname qty =
     (case findCategory rootNode c of
        NULL \<Rightarrow> (rootNode, [CategoryDoesNotExist])
      | Node k ps l r \<Rightarrow>
          (setProductsHead rootNode c (insertProduct ps pid pname qty), [ProductAdded]))"

text \<open>
  \<^verbatim>\<open>updateProduct\<close> and \<^verbatim>\<open>deleteProduct\<close> walk the whole tree. They return nothing,
  so after the call on the left subtree the node's own list is searched whether or not
  the left subtree held the product; the right subtree is skipped when the node's list
  holds it. The result is the tree after the call and the lines printed. The
  subtraction in \<^verbatim>\<open>deleteProduct\<close> is that of \<open>c_int\<close>: it wraps around.
\<close>

fun updateProduct :: "CategoryNode \<Rightarrow> c_int \<Rightarrow> c_int \<Rightarrow> CategoryNode \<times> message list" where
  "updateProduct NULL pid newQuantity = (NULL, [])"
| "updateProduct (Node k ps l r) pid newQuantity =
     (case updateProduct l pid newQuantity of
        (l', out1) \<Rightarrow>
          (case findProduct ps pid of
             Some i \<Rightarrow>
               (Node k (ps[i := (ps ! i)\<lparr>quantity := newQuantity\<rparr>]) l' r,
                out1 @ [QuantityUpdated newQuantity])
           | None \<Rightarrow>
               (case updateProduct r pid newQuantity of
                  (r', out2) \<Rightarrow> (Node k ps l' r', out1 @ out2))))"

fun deleteProduct :: "CategoryNode \<Rightarrow> c_int \<Rightarrow> c_int \<Rightarrow> CategoryNode \<times> message list" where
  "deleteProduct NULL pid decreaseQuantity = (NULL, [])"
| "deleteProduct (Node k ps l r) pid decreaseQuantity =
     (case deleteProduct l pid decreaseQuantity of
        (l', out1) \<Rightarrow>
          (case findProduct ps pid of
             Some i \<Rightarrow>
               (if sint (quantity (ps ! i)) \<ge> sint decreaseQuantity
                then
                  (Node k (ps[i := (ps ! i)\<lparr>quantity := quantity (ps ! i) - decreaseQuantity\<rparr>]) l' r,
                   out1 @ [Decreased decreaseQuantity (quantity (ps ! i) - decreaseQuantity)])
                else
                  (Node k ps l' r,
                   out1 @ [NotEnoughStock decreaseQuantity (quantity (ps ! i))]))
           | None \<Rightarrow>
               (case deleteProduct r pid decreaseQuantity of
                  (r', out2) \<Rightarrow> (Node k ps l' r', out1 @ out2))))"

subsection \<open>The products report\<close>

text \<open>
  \<^verbatim>\<open>printProductsReport\<close> starts with two nested loops under the comment
  \<^verbatim>\<open>Sorting the list of products based on their ID\<close>. Their body exchanges the local
  pointers \<^verbatim>\<open>current\<close> and \<^verbatim>\<open>index\<close>; no node is written. The loops are modelled on
  positions (the null pointer is the length of the list) and return the final
  \<^verbatim>\<open>current\<close>. After an exchange the inner loop's step \<^verbatim>\<open>index = index->next\<close> moves
  \<^verbatim>\<open>index\<close> to the successor of the old \<^verbatim>\<open>current\<close>.
\<close>

function printProductsReport_inner :: "Product list \<Rightarrow> nat \<Rightarrow> nat \<Rightarrow> nat" where
  "printProductsReport_inner ps current index =
     (if index < length ps
      then
        (if sint (productId (ps ! current)) > sint (productId (ps ! index))
         then printProductsReport_inner ps index (Suc current)
         else printProductsReport_inner ps current (Suc index))
      else current)"
  by pat_completeness auto
termination
proof (relation "(\<lambda>(ps, current, index).
          card {k. k < length ps \<and> sint (productId (ps ! k)) < sint (productId (ps ! current))})
        <*mlex*> measure (\<lambda>(ps, current, index). length ps - index)")
  show "wf ((\<lambda>(ps, current, index).
          card {k. k < length ps \<and> sint (productId (ps ! k)) < sint (productId (ps ! current))})
        <*mlex*> measure (\<lambda>(ps, current, index). length ps - index))"
    by (simp add: wf_mlex)
next
  fix ps :: "Product list" and current index :: nat
  assume lt: "index < length ps"
    and gt: "sint (productId (ps ! index)) < sint (productId (ps ! current))"
  have "{k. k < length ps \<and> sint (productId (ps ! k)) < sint (productId (ps ! index))}
        \<subset> {k. k < length ps \<and> sint (productId (ps ! k)) < sint (productId (ps ! current))}"
    using lt gt by auto
  then have "card {k. k < length ps \<and> sint (productId (ps ! k)) < sint (productId (ps ! index))}
        < card {k. k < length ps \<and> sint (productId (ps ! k)) < sint (productId (ps ! current))}"
    by (intro psubset_card_mono) auto
  then show "((ps, index, Suc current), (ps, current, index))
      \<in> (\<lambda>(ps, current, index).
          card {k. k < length ps \<and> sint (productId (ps ! k)) < sint (productId (ps ! current))})
        <*mlex*> measure (\<lambda>(ps, current, index). length ps - index)"
    by (simp add: mlex_less)
next
  fix ps :: "Product list" and current index :: nat
  assume lt: "index < length ps"
  then show "((ps, current, Suc index), (ps, current, index))
      \<in> (\<lambda>(ps, current, index).
          card {k. k < length ps \<and> sint (productId (ps ! k)) < sint (productId (ps ! current))})
        <*mlex*> measure (\<lambda>(ps, current, index). length ps - index)"
    by (auto intro!: mlex_leq)
qed

declare printProductsReport_inner.simps [simp del]

lemma printProductsReport_inner_ge:
  "i0 \<le> current \<Longrightarrow> i0 \<le> index \<Longrightarrow> i0 \<le> printProductsReport_inner ps current index"
proof (induction ps current index rule: printProductsReport_inner.induct)
  case (1 ps current index)
  show ?case
  proof (cases "index < length ps")
    case False
    then show ?thesis
      using "1.prems" by (subst printProductsReport_inner.simps) simp
  next
    case True
    show ?thesis
    proof (cases "sint (productId (ps ! current)) > sint (productId (ps ! index))")
      case swap: True
      have "i0 \<le> printProductsReport_inner ps index (Suc current)"
        using "1.IH"(1) [OF True swap] "1.prems" by simp
      then show ?thesis
        using True swap by (subst printProductsReport_inner.simps) simp
    next
      case keep: False
      have "i0 \<le> printProductsReport_inner ps current (Suc index)"
        using "1.IH"(2) [OF True keep] "1.prems" by simp
      then show ?thesis
        using True keep by (subst printProductsReport_inner.simps) simp
    qed
  qed
qed

function printProductsReport_outer :: "Product list \<Rightarrow> nat \<Rightarrow> nat" where
  "printProductsReport_outer ps current =
     (if current < length ps
      then printProductsReport_outer ps
             (Suc (printProductsReport_inner ps current (Suc current)))
      else current)"
  by pat_completeness auto
termination
proof (relation "measure (\<lambda>(ps, current). length ps - current)")
  show "wf (measure (\<lambda>(ps, current). length ps - current))"
    by simp
next
  fix ps :: "Product list" and current :: nat
  assume lt: "current < length ps"
  have "current \<le> printProductsReport_inner ps current (Suc current)"
    by (rule printProductsReport_inner_ge) simp_all
  with lt show "((ps, Suc (printProductsReport_inner ps current (Suc current))), (ps, current))
      \<in> measure (\<lambda>(ps, current). length ps - current)"
    by simp
qed

declare printProductsReport_outer.simps [simp del]

fun printProductsReport_rows :: "Product list \<Rightarrow> message list" where
  "printProductsReport_rows [] = []"
| "printProductsReport_rows (p # rest) =
     ReportRow (productId p) (name p) (quantity p) (category p)
       # printProductsReport_rows rest"

definition printProductsReport :: "Product list \<Rightarrow> message list" where
  "printProductsReport head =
     (let current = printProductsReport_outer head 0
      in ReportHeader # printProductsReport_rows head)"

subsection \<open>Stock analysis\<close>

text \<open>
  \<^verbatim>\<open>(double)totalQuantity / count\<close>: a division of two integers converted to
  \<^verbatim>\<open>double\<close>. A zero divisor does not trap: the quotient is a NaN or an infinity.
  Otherwise the result is the binary64 number nearest to the exact quotient;
  \<open>round_double a b\<close> is that number for positive \<open>a\<close> and \<open>b\<close>. With
  \<open>e = exponent a b\<close> the exact quotient is at least \<open>2 ^ e\<close> and less than
  \<open>2 ^ (e + 1)\<close>, so the binary64 numbers around it are the multiples of
  \<open>2 ^ (e - 52)\<close>. \<open>round_half_even n d\<close> is the integer nearest to \<open>n / d\<close>, the
  even one when two are equally near, and \<open>bitlength n\<close> is the number of binary
  digits of \<open>n\<close>.
\<close>

function bitlength :: "int \<Rightarrow> nat" where
  "bitlength n = (if n \<le> 0 then 0 else Suc (bitlength (n div 2)))"
  by pat_completeness auto
termination
  by (relation "measure nat") auto

declare bitlength.simps [simp del]

definition exponent :: "int \<Rightarrow> int \<Rightarrow> int" where
  "exponent a b =
     (if b \<le> a then int (bitlength (a div b)) - 1 else - int (bitlength ((b - 1) div a)))"

definition round_half_even :: "int \<Rightarrow> int \<Rightarrow> int" where
  "round_half_even n d =
     (let q = n div d; r = n mod d
      in if 2 * r < d then q else if d < 2 * r then q + 1
         else if even q then q else q + 1)"

definition round_double :: "int \<Rightarrow> int \<Rightarrow> real" where
  "round_double a b =
     (let e = exponent a b; up = nat (52 - e); down = nat (e - 52)
      in real_of_int (round_half_even (a * 2 ^ up) (b * 2 ^ down)) * 2 ^ down / 2 ^ up)"

definition double_div :: "int \<Rightarrow> int \<Rightarrow> double" where
  "double_div a b =
     (if b = 0 then (if a = 0 then NaN else if a > 0 then PosInf else NegInf)
      else if a = 0 then Finite 0
      else Finite (real_of_int (sgn a * sgn b) * round_double \<bar>a\<bar> \<bar>b\<bar>))"


text \<open>Comparison of an \<^verbatim>\<open>int\<close> with a \<^verbatim>\<open>double\<close>; with a NaN both are false.\<close>

fun int_lt_double :: "int \<Rightarrow> double \<Rightarrow> bool" where
  "int_lt_double q (Finite a) = (real_of_int q < a)"
| "int_lt_double q PosInf = True"
| "int_lt_double q NegInf = False"
| "int_lt_double q NaN = False"

fun int_gt_double :: "int \<Rightarrow> double \<Rightarrow> bool" where
  "int_gt_double q (Finite a) = (real_of_int q > a)"
| "int_gt_double q PosInf = False"
| "int_gt_double q NegInf = True"
| "int_gt_double q NaN = False"

text \<open>
  The first loop of \<^verbatim>\<open>analyzeProducts\<close>, with its state \<^verbatim>\<open>count\<close>, \<^verbatim>\<open>totalQuantity\<close>,
  \<^verbatim>\<open>maxStockProduct\<close>, \<^verbatim>\<open>minStockProduct\<close>. Both \<^verbatim>\<open>count\<close> and \<^verbatim>\<open>totalQuantity\<close> are
  \<^verbatim>\<open>int\<close>s: their additions wrap around.
\<close>

fun analyzeProducts_loop1 ::
    "Product list \<Rightarrow> c_int \<Rightarrow> c_int \<Rightarrow> Product option \<Rightarrow> Product option
      \<Rightarrow> c_int \<times> c_int \<times> Product option \<times> Product option" where
  "analyzeProducts_loop1 [] count tq mx mn = (count, tq, mx, mn)"
| "analyzeProducts_loop1 (p # rest) count tq mx mn =
     analyzeProducts_loop1 rest (count + 1) (tq + quantity p)
       (case mx of
          None \<Rightarrow> Some p
        | Some m \<Rightarrow> if sint (quantity p) > sint (quantity m) then Some p else Some m)
       (case mn of
          None \<Rightarrow> Some p
        | Some m \<Rightarrow> if sint (quantity p) < sint (quantity m) then Some p else Some m)"

text \<open>
  The second loop: a copy of each qualifying product is put at the head of
  \<^verbatim>\<open>lowStockProducts\<close> or \<^verbatim>\<open>highStockProducts\<close>.
\<close>

fun analyzeProducts_loop2 ::
    "Product list \<Rightarrow> double \<Rightarrow> Product list \<Rightarrow> Product list
      \<Rightarrow> Product list \<times> Product list" where
  "analyzeProducts_loop2 [] avg low high = (low, high)"
| "analyzeProducts_loop2 (p # rest) avg low high =
     (if int_lt_double (sint (quantity p)) avg
      then analyzeProducts_loop2 rest avg (p # low) high
      else if int_gt_double (sint (quantity p)) avg
      then analyzeProducts_loop2 rest avg low (p # high)
      else analyzeProducts_loop2 rest avg low high)"

definition analyzeProducts :: "Product list \<Rightarrow> AnalysisResult" where
  "analyzeProducts head =
     (case analyzeProducts_loop1 head 0 0 None None of
        (count, tq, mx, mn) \<Rightarrow>
          (let averageQuantity = double_div (sint tq) (sint count) in
           case analyzeProducts_loop2 head averageQuantity [] [] of
             (low, high) \<Rightarrow>
               \<lparr>lowStockProducts = low, highStockProducts = high,
                maxStockProduct = mx, minStockProduct = mn,
                totalQuantity = tq, averageQuantity = averageQuantity\<rparr>))"

subsection \<open>Notions used in the statements\<close>

text \<open>The category names among printed lines, in the order printed.\<close>

fun categoryLines :: "message list \<Rightarrow> string list" where
  "categoryLines [] = []"
| "categoryLines (CategoryLine c # out) = c # categoryLines out"
| "categoryLines (_ # out) = categoryLines out"

text \<open>The names stored in a tree, and the ordering invariant of the index.\<close>

fun names :: "CategoryNode \<Rightarrow> string set" where
  "names NULL = {}"
| "names (Node k ps l r) = insert k (names l \<union> names r)"

fun ordered :: "CategoryNode \<Rightarrow> bool" where
  "ordered NULL = True"
| "ordered (Node k ps l r) =
     (ordered l \<and> ordered r \<and>
      (\<forall>x \<in> names l. strcmp x k < 0) \<and> (\<forall>y \<in> names r. strcmp y k > 0))"


text \<open>
  \<open>changeFirst f pid ps\<close> is the collection \<open>ps\<close> with \<open>f\<close> applied to its first product
  whose ID is \<open>pid\<close>; without such a product it is \<open>ps\<close>.
\<close>

fun changeFirst :: "(Product \<Rightarrow> Product) \<Rightarrow> c_int \<Rightarrow> Product list \<Rightarrow> Product list" where
  "changeFirst f pid [] = []"
| "changeFirst f pid (p # ps) =
     (if productId p = pid then f p # ps else p # changeFirst f pid ps)"


text \<open>The categories of a tree with their collections, in the order of an in-order traversal.\<close>

fun collections :: "CategoryNode \<Rightarrow> (string \<times> Product list) list" where
  "collections NULL = []"
| "collections (Node k ps l r) = collections l @ (k, ps) # collections r"

text \<open>
  \<open>nodewise R t t'\<close>: the trees \<open>t\<close> and \<open>t'\<close> have the same shape and the same names, and
  \<open>R\<close> relates the collections of corresponding nodes.
\<close>

fun nodewise :: "(Product list \<Rightarrow> Product list \<Rightarrow> bool) \<Rightarrow> CategoryNode \<Rightarrow> CategoryNode \<Rightarrow> bool" where
  "nodewise R NULL NULL = True"
| "nodewise R (Node k ps l r) (Node k' ps' l' r') =
     (k' = k \<and> R ps ps' \<and> nodewise R l l' \<and> nodewise R r r')"
| "nodewise R _ _ = False"

subsection \<open>Facts about string comparison\<close>

lemma strcmp_less: "strcmp a b < 0 \<longleftrightarrow> a < b"
  by (induction a b rule: strcmp.induct) (auto simp: less_char_def)

lemma strcmp_eq: "strcmp a b = 0 \<longleftrightarrow> a = b"
  by (induction a b rule: strcmp.induct) auto

lemma strcmp_greater: "strcmp a b > 0 \<longleftrightarrow> b < a"
  by (induction a b rule: strcmp.induct)
     (auto simp: less_char_def linorder_neq_iff)

subsection \<open>Insertion into the index\<close>

lemma names_insertCategory: "names (insertCategory t c) = insert c (names t)"
  by (induction t) (auto simp: strcmp_less strcmp_greater)

lemma ordered_insertCategory: "ordered t \<Longrightarrow> ordered (insertCategory t c)"
  by (induction t) (auto simp: names_insertCategory)

lemma insertCategory_present: "ordered t \<Longrightarrow> c \<in> names t \<Longrightarrow> insertCategory t c = t"
proof (induction t)
  case NULL
  then show ?case by simp
next
  case (Node k ps l r)
  show ?case
  proof (cases "strcmp c k < 0")
    case True
    then have "c < k" by (simp add: strcmp_less)
    moreover have "\<forall>y \<in> names r. k < y"
      using Node.prems(1) by (simp add: strcmp_greater)
    ultimately have "c \<in> names l"
      using Node.prems(2) by auto
    then show ?thesis
      using True Node by simp
  next
    case False
    show ?thesis
    proof (cases "strcmp c k > 0")
      case True
      then have "k < c" by (simp add: strcmp_greater)
      moreover have "\<forall>x \<in> names l. x < k"
        using Node.prems(1) by (simp add: strcmp_less)
      ultimately have "c \<in> names r"
        using Node.prems(2) by auto
      then have "insertCategory r c = r"
        using Node by simp
      then show ?thesis
        by (simp add: True \<open>\<not> strcmp c k < 0\<close>)
    next
      case False
      with \<open>\<not> strcmp c k < 0\<close> show ?thesis by simp
    qed
  qed
qed

lemma categoryLines_append: "categoryLines (xs @ ys) = categoryLines xs @ categoryLines ys"
  by (induction xs rule: categoryLines.induct) simp_all

lemma categoryLines_displayProducts: "categoryLines (displayProducts ps) = []"
  by (induction ps) simp_all

lemma categoryLines_Node:
  "categoryLines (displayCategories (Node k ps l r)) =
     categoryLines (displayCategories l) @ k # categoryLines (displayCategories r)"
  by (simp add: categoryLines_append categoryLines_displayProducts)

lemma set_categoryLines: "set (categoryLines (displayCategories t)) = names t"
proof (induction t)
  case NULL
  then show ?case by simp
next
  case (Node k ps l r)
  then show ?case
    unfolding categoryLines_Node by auto
qed

lemma sorted_categoryLines:
  "ordered t \<Longrightarrow> sorted_wrt (\<lambda>a b. strcmp a b < 0) (categoryLines (displayCategories t))"
proof (induction t)
  case NULL
  then show ?case by simp
next
  case (Node k ps l r)
  have lk: "\<forall>x \<in> names l. x < k" and kr: "\<forall>y \<in> names r. k < y"
    using Node.prems by (simp_all add: strcmp_less strcmp_greater)
  then have "\<forall>x \<in> names l. \<forall>y \<in> names r. x < y"
    by fastforce
  with lk kr Node show ?case
    unfolding categoryLines_Node
    by (simp add: sorted_wrt_append set_categoryLines strcmp_less)
qed

lemma strict_sorted_strcmp:
  "sorted_wrt (\<lambda>a b. strcmp a b < 0) xs \<longleftrightarrow> sorted xs \<and> distinct xs"
  by (simp add: strcmp_less strict_sorted_iff)

lemma ordered_foldl: "ordered t \<Longrightarrow> ordered (foldl insertCategory t cs)"
  by (induction cs arbitrary: t) (simp_all add: ordered_insertCategory)

lemma names_foldl: "names (foldl insertCategory t cs) = names t \<union> set cs"
  by (induction cs arbitrary: t) (simp_all add: names_insertCategory)

text \<open>
  Claim C4. Whatever the sequence \<open>cs\<close> of names inserted into the empty index, the
  category lines that \<^verbatim>\<open>displayCategories\<close> prints (an in-order traversal) are the
  distinct names of \<open>cs\<close> in ascending order: the list is the sorted, duplicate-free
  enumeration of the set of \<open>cs\<close> in the lexicographic order on byte strings, and it is
  strictly ascending for \<^verbatim>\<open>strcmp\<close> itself. Inserting a name that has been inserted
  before gives back the same tree.
\<close>

theorem insertCategory_inorder:
  "categoryLines (displayCategories (foldl insertCategory NULL cs)) = sorted_list_of_set (set cs)
   \<and> sorted_wrt (\<lambda>a b. strcmp a b < 0)
        (categoryLines (displayCategories (foldl insertCategory NULL cs)))
   \<and> (c \<in> set cs \<longrightarrow>
        insertCategory (foldl insertCategory NULL cs) c = foldl insertCategory NULL cs)"
proof -
  let ?t = "foldl insertCategory NULL cs"
  have ord: "ordered ?t"
    by (rule ordered_foldl) simp
  have nm: "names ?t = set cs"
    by (simp add: names_foldl)
  have srt: "sorted_wrt (\<lambda>a b. strcmp a b < 0) (categoryLines (displayCategories ?t))"
    using ord by (rule sorted_categoryLines)
  then have "sorted (categoryLines (displayCategories ?t))"
    and "distinct (categoryLines (displayCategories ?t))"
    by (simp_all add: strict_sorted_strcmp)
  moreover have "set (categoryLines (displayCategories ?t)) = set cs"
    by (simp add: set_categoryLines nm)
  ultimately have "categoryLines (displayCategories ?t) = sorted_list_of_set (set cs)"
    by (metis sorted_list_of_set.idem_if_sorted_distinct)
  moreover have "c \<in> set cs \<longrightarrow> insertCategory ?t c = ?t"
    using ord nm by (simp add: insertCategory_present)
  ultimately show ?thesis
    using srt by simp
qed

theorem insertCategory_inorder_witness:
  "''Food'' \<in> set [''Tools'', ''Food'', ''Tools'']
   \<and> categoryLines (displayCategories (foldl insertCategory NULL [''Tools'', ''Food'', ''Tools'']))
       = [''Food'', ''Tools'']
   \<and> insertCategory (foldl insertCategory NULL [''Tools'', ''Food'', ''Tools'']) ''Food''
       = foldl insertCategory NULL [''Tools'', ''Food'', ''Tools'']"
  using insertCategory_inorder [of "[''Tools'', ''Food'', ''Tools'']" "''Food''",
      THEN conjunct2, THEN conjunct2]
  by simp

subsection \<open>Deletion from the index\<close>

text \<open>
  On the names alone \<^verbatim>\<open>deleteCategory\<close> is a correct deletion from a search tree: the
  ordering invariant is kept, the deleted name is no longer found, every other name is
  found exactly when it was before, and deleting an absent name changes nothing
  (\<open>deleteCategory_names_correct\<close> below).
\<close>

lemma leftmost_in: "leftmost k l \<in> insert k (names l)"
  by (induction k l rule: leftmost.induct) auto

lemma leftmost_least:
  "ordered l \<Longrightarrow> \<forall>x \<in> names l. x < k \<Longrightarrow> \<forall>y \<in> insert k (names l). leftmost k l \<le> y"
proof (induction k l rule: leftmost.induct)
  case (1 k)
  then show ?case by simp
next
  case (2 k k' ps l r)
  have "\<forall>y \<in> insert k' (names l). leftmost k' l \<le> y"
    using 2 by (simp add: strcmp_less)
  moreover have "\<forall>y \<in> names r. k' < y"
    using "2.prems"(1) by (simp add: strcmp_greater)
  moreover have "k' < k"
    using "2.prems"(2) by simp
  ultimately show ?case
    by (auto intro: order_trans less_imp_le)
qed

lemma deleteCategory_absent: "c \<notin> names t \<Longrightarrow> deleteCategory t c = t"
  by (induction t) (auto simp: strcmp_less strcmp_greater)

lemma names_deleteCategory: "ordered t \<Longrightarrow> names (deleteCategory t c) = names t - {c}"
proof (induction t arbitrary: c)
  case NULL
  then show ?case by simp
next
  case (Node k ps l r)
  have lk: "\<forall>x \<in> names l. x < k" and kr: "\<forall>y \<in> names r. k < y"
    and ol: "ordered l" and or: "ordered r"
    using Node.prems by (simp_all add: strcmp_less strcmp_greater)
  have knl: "k \<notin> names l" and knr: "k \<notin> names r"
    using lk kr by auto
  show ?case
  proof (cases "c < k")
    case True
    then have "c \<notin> names r" using kr by auto
    then show ?thesis
      using True Node.IH(1) [OF ol] by (auto simp: strcmp_less)
  next
    case False
    show ?thesis
    proof (cases "k < c")
      case True
      then have "c \<notin> names l" using lk by auto
      then show ?thesis
        using True False Node.IH(2) [OF or] by (auto simp: strcmp_less strcmp_greater)
    next
      case eq: False
      then have ck: "c = k" using False by simp
      show ?thesis
      proof (cases l)
        case NULL
        then show ?thesis using ck knr by (simp add: strcmp_less strcmp_greater)
      next
        case L: (Node lk lps ll lr)
        show ?thesis
        proof (cases r)
          case NULL
          then show ?thesis using ck L knl by (simp add: strcmp_less strcmp_greater)
        next
          case R: (Node rk rps rl rr)
          have "leftmost rk rl \<in> names r"
            using leftmost_in [of rk rl] R by auto
          moreover have "names (deleteCategory r (leftmost rk rl)) = names r - {leftmost rk rl}"
            by (rule Node.IH(2) [OF or])
          ultimately have "names (Node (leftmost rk rl) ps l (deleteCategory r (leftmost rk rl)))
              = names l \<union> names r"
            by auto
          moreover have "deleteCategory (Node k ps l r) c
              = Node (leftmost rk rl) ps l (deleteCategory r (leftmost rk rl))"
            using ck L R by (simp add: strcmp_less strcmp_greater Let_def)
          ultimately show ?thesis
            using ck knl knr by auto
        qed
      qed
    qed
  qed
qed

lemma ordered_deleteCategory: "ordered t \<Longrightarrow> ordered (deleteCategory t c)"
proof (induction t arbitrary: c)
  case NULL
  then show ?case by simp
next
  case (Node k ps l r)
  have lk: "\<forall>x \<in> names l. x < k" and kr: "\<forall>y \<in> names r. k < y"
    and ol: "ordered l" and or: "ordered r"
    using Node.prems by (simp_all add: strcmp_less strcmp_greater)
  show ?case
  proof (cases "c < k")
    case True
    then show ?thesis
      using Node.IH(1) [OF ol] lk kr ol or
      by (simp add: strcmp_less strcmp_greater names_deleteCategory)
  next
    case False
    show ?thesis
    proof (cases "k < c")
      case True
      then show ?thesis
        using False Node.IH(2) [OF or] lk kr ol or
        by (simp add: strcmp_less strcmp_greater names_deleteCategory)
    next
      case eq: False
      show ?thesis
      proof (cases l)
        case NULL
        then show ?thesis using False eq or by (simp add: strcmp_less strcmp_greater)
      next
        case L: (Node lk lps ll lr)
        show ?thesis
        proof (cases r)
          case NULL
          then show ?thesis using False eq L ol by (simp add: strcmp_less strcmp_greater)
        next
          case R: (Node rk rps rl rr)
          let ?s = "leftmost rk rl"
          have sin: "?s \<in> names r"
            using leftmost_in [of rk rl] R by auto
          have "ordered rl" and "\<forall>x \<in> names rl. x < rk"
            using or R by (simp_all add: strcmp_less)
          then have "\<forall>y \<in> insert rk (names rl). ?s \<le> y"
            by (rule leftmost_least)
          moreover have "\<forall>y \<in> names rr. rk < y"
            using or R by (simp add: strcmp_greater)
          moreover have "?s \<le> rk"
            using calculation(1) by simp
          ultimately have least: "\<forall>y \<in> names r. ?s \<le> y"
            using R by (auto intro: order_trans less_imp_le)
          have "\<forall>y \<in> names r - {?s}. ?s < y"
            using least by (auto simp: order_less_le)
          moreover have "\<forall>x \<in> names l. x < ?s"
            using lk kr sin by (meson order_less_trans)
          moreover have "ordered (deleteCategory r ?s)"
            by (rule Node.IH(2) [OF or])
          moreover have "deleteCategory (Node k ps l r) c = Node ?s ps l (deleteCategory r ?s)"
            using False eq L R by (simp add: strcmp_less strcmp_greater Let_def)
          ultimately show ?thesis
            using ol or by (simp add: names_deleteCategory strcmp_less strcmp_greater)
        qed
      qed
    qed
  qed
qed

lemma findCategory_NULL: "ordered t \<Longrightarrow> findCategory t c = NULL \<longleftrightarrow> c \<notin> names t"
proof (induction t)
  case NULL
  then show ?case by simp
next
  case (Node k ps l r)
  have lk: "\<forall>x \<in> names l. x < k" and kr: "\<forall>y \<in> names r. k < y"
    using Node.prems by (simp_all add: strcmp_less strcmp_greater)
  show ?case
  proof (cases "c = k")
    case True
    then show ?thesis by (simp add: strcmp_eq)
  next
    case neq: False
    show ?thesis
    proof (cases "c < k")
      case True
      then have "c \<notin> names r" using kr by auto
      then show ?thesis
        using True neq Node by (simp add: strcmp_eq strcmp_less)
    next
      case False
      then have "k < c" using neq by simp
      then have "c \<notin> names l" using lk by auto
      then show ?thesis
        using False neq Node by (simp add: strcmp_eq strcmp_less)
    qed
  qed
qed

lemma deleteCategory_names_correct:
  "ordered t \<Longrightarrow>
     ordered (deleteCategory t c)
     \<and> findCategory (deleteCategory t c) c = NULL
     \<and> (\<forall>d. d \<noteq> c \<longrightarrow> (findCategory (deleteCategory t c) d = NULL \<longleftrightarrow> findCategory t d = NULL))
     \<and> (c \<notin> names t \<longrightarrow> deleteCategory t c = t)"
  by (simp add: ordered_deleteCategory findCategory_NULL names_deleteCategory deleteCategory_absent)

text \<open>
  Claim C5. The specification asks that deleting a category removes its products and
  leaves every other category as it was. When the node has two children,
  \<^verbatim>\<open>deleteCategory\<close> copies the successor's name into the node and deletes the
  successor's node: the products of the deleted category stay in the tree under the
  successor's name, and the successor's own products are lost. Deleting M below leaves
  Z with M's product (the hammer) instead of its own (the nail).
\<close>

theorem deleteCategory_keeps_products_of_deleted:
  "deleteCategory
     (Node ''M'' [\<lparr>productId = 1, name = ''Hammer'', quantity = 10, category = ''Hammer''\<rparr>]
        (Node ''A'' [] NULL NULL)
        (Node ''Z'' [\<lparr>productId = 2, name = ''Nail'', quantity = 100, category = ''Nail''\<rparr>]
           NULL NULL)) ''M'' =
     Node ''Z'' [\<lparr>productId = 1, name = ''Hammer'', quantity = 10, category = ''Hammer''\<rparr>]
       (Node ''A'' [] NULL NULL) NULL"
  by simp

subsection \<open>Product lists\<close>

lemma insertProduct_category:
  "category (hd (insertProduct head pid pname qty)) = pname"
  by (simp add: insertProduct_def)

text \<open>
  Claim C7. The specification describes the \<^verbatim>\<open>category\<close> field of a product as a copy
  of the name of the category that owns it. \<^verbatim>\<open>insertProduct\<close> copies the product's
  own name into the field (\<open>insertProduct_category\<close>): the product Hammer added to the
  category Tools is stored with the category Hammer.
\<close>

theorem addProduct_category_is_product_name:
  "addProduct (insertCategory NULL ''Tools'') ''Tools'' 1 ''Hammer'' 10 =
     (Node ''Tools''
        [\<lparr>productId = 1, name = ''Hammer'', quantity = 10, category = ''Hammer''\<rparr>]
        NULL NULL,
      [ProductAdded])"
  by (simp add: addProduct_def insertProduct_def)



lemma changeFirst_absent: "pid \<notin> productId ` set ps \<Longrightarrow> changeFirst f pid ps = ps"
  by (induction ps) auto

lemma length_changeFirst: "length (changeFirst f pid ps) = length ps"
  by (induction ps) auto





lemma nodewise_length_collections:
  "nodewise R t t' \<Longrightarrow> length (collections t') = length (collections t)"
  by (induction R t t' rule: nodewise.induct) auto

















text \<open>
  Claim C10. The claim is that an update or a decrease changes one product at most, the
  first match in the order left subtree, node, right subtree. The functions return
  nothing, so a match in the left subtree does not stop the search at the node: with
  product 1 both in category A and in its parent M, both products are changed.
\<close>

theorem updateProduct_changes_two_products:
  "updateProduct
     (Node ''M'' [\<lparr>productId = 1, name = ''Hammer'', quantity = 10, category = ''Hammer''\<rparr>]
        (Node ''A'' [\<lparr>productId = 1, name = ''Axe'', quantity = 7, category = ''Axe''\<rparr>]
           NULL NULL)
        NULL) 1 99 =
     (Node ''M'' [\<lparr>productId = 1, name = ''Hammer'', quantity = 99, category = ''Hammer''\<rparr>]
        (Node ''A'' [\<lparr>productId = 1, name = ''Axe'', quantity = 99, category = ''Axe''\<rparr>]
           NULL NULL)
        NULL,
      [QuantityUpdated 99, QuantityUpdated 99])
   \<and> deleteProduct
     (Node ''M'' [\<lparr>productId = 1, name = ''Hammer'', quantity = 10, category = ''Hammer''\<rparr>]
        (Node ''A'' [\<lparr>productId = 1, name = ''Axe'', quantity = 7, category = ''Axe''\<rparr>]
           NULL NULL)
        NULL) 1 4 =
     (Node ''M'' [\<lparr>productId = 1, name = ''Hammer'', quantity = 6, category = ''Hammer''\<rparr>]
        (Node ''A'' [\<lparr>productId = 1, name = ''Axe'', quantity = 3, category = ''Axe''\<rparr>]
           NULL NULL)
        NULL,
      [Decreased 4 3, Decreased 4 6])"
  by simp

subsection \<open>The products report\<close>

lemma printProductsReport_rows_map:
  "printProductsReport_rows ps =
     map (\<lambda>p. ReportRow (productId p) (name p) (quantity p) (category p)) ps"
  by (induction ps) simp_all

lemma printProductsReport_collection_order:
  "printProductsReport head =
     ReportHeader # map (\<lambda>p. ReportRow (productId p) (name p) (quantity p) (category p)) head"
  by (simp add: printProductsReport_def printProductsReport_rows_map)

text \<open>
  Claim C6. The specification asks for the rows in ascending order of the product ID.
  The loops that \<^verbatim>\<open>printProductsReport\<close> announces as sorting exchange two local
  pointers only, so the rows come out in the order of the list
  (\<open>printProductsReport_collection_order\<close>): a list holding product 2 before
  product 1 is printed in that order.
\<close>

theorem printProductsReport_not_sorted:
  "printProductsReport
     [\<lparr>productId = 2, name = ''Nail'', quantity = 100, category = ''Nail''\<rparr>,
      \<lparr>productId = 1, name = ''Hammer'', quantity = 10, category = ''Hammer''\<rparr>] =
     [ReportHeader, ReportRow 2 ''Nail'' 100 ''Nail'', ReportRow 1 ''Hammer'' 10 ''Hammer'']"
  by (simp add: printProductsReport_def)

subsection \<open>Stock analysis\<close>

text \<open>
  Claim C1. The specification asks the analysis of an empty collection to fail with an
  EmptyInput condition instead of dividing. \<^verbatim>\<open>analyzeProducts\<close> has no such check:
  on the empty list both loops are skipped, the quotient \<^verbatim>\<open>(double)0 / 0\<close> is
  computed (a NaN), and a result is returned whose extreme products are null pointers.
\<close>

theorem analyzeProducts_empty:
  "analyzeProducts [] =
     \<lparr>lowStockProducts = [], highStockProducts = [],
      maxStockProduct = None, minStockProduct = None,
      totalQuantity = 0, averageQuantity = NaN\<rparr>"
  by (simp add: analyzeProducts_def double_div_def)














lemmas double_div_eval =
  double_div_def round_double_def exponent_def round_half_even_def bitlength.simps

lemma loop1_count:
  "fst (analyzeProducts_loop1 xs c t mx mn) = c + word_of_int (int (length xs))"
  by (induction xs arbitrary: c t mx mn) (simp_all add: wi_hom_syms)

lemma loop1_total:
  "fst (snd (analyzeProducts_loop1 xs c t mx mn))
     = t + word_of_int (sum_list (map (\<lambda>p. sint (quantity p)) xs))"
  by (induction xs arbitrary: c t mx mn) (simp_all add: wi_hom_syms)





lemma int_lt_not_gt: "int_lt_double q a \<Longrightarrow> \<not> int_gt_double q a"
  by (cases a) simp_all

lemma loop2_rev_filter:
  "analyzeProducts_loop2 xs avg low high =
     (rev (filter (\<lambda>p. int_lt_double (sint (quantity p)) avg) xs) @ low,
      rev (filter (\<lambda>p. int_gt_double (sint (quantity p)) avg) xs) @ high)"
  by (induction xs arbitrary: low high) (auto dest: int_lt_not_gt)

lemma analyzeProducts_fields:
  "totalQuantity (analyzeProducts xs) = word_of_int (sum_list (map (\<lambda>p. sint (quantity p)) xs))"
  "averageQuantity (analyzeProducts xs) =
     double_div (sint (totalQuantity (analyzeProducts xs)))
       (sint (word_of_int (int (length xs)) :: c_int))"
  "lowStockProducts (analyzeProducts xs) =
     rev (filter (\<lambda>p. int_lt_double (sint (quantity p)) (averageQuantity (analyzeProducts xs))) xs)"
  "highStockProducts (analyzeProducts xs) =
     rev (filter (\<lambda>p. int_gt_double (sint (quantity p)) (averageQuantity (analyzeProducts xs))) xs)"
  "maxStockProduct (analyzeProducts xs) =
     fst (snd (snd (analyzeProducts_loop1 xs 0 0 None None)))"
  "minStockProduct (analyzeProducts xs) =
     snd (snd (snd (analyzeProducts_loop1 xs 0 0 None None)))"
proof -
  obtain c t mx mn where run: "analyzeProducts_loop1 xs 0 0 None None = (c, t, mx, mn)"
    by (cases "analyzeProducts_loop1 xs 0 0 None None") auto
  have c: "c = word_of_int (int (length xs))"
    using loop1_count [of xs 0 0 None None] run by simp
  have t: "t = word_of_int (sum_list (map (\<lambda>p. sint (quantity p)) xs))"
    using loop1_total [of xs 0 0 None None] run by simp
  have unfold: "analyzeProducts xs =
      \<lparr>lowStockProducts =
         rev (filter (\<lambda>p. int_lt_double (sint (quantity p)) (double_div (sint t) (sint c))) xs),
       highStockProducts =
         rev (filter (\<lambda>p. int_gt_double (sint (quantity p)) (double_div (sint t) (sint c))) xs),
       maxStockProduct = mx, minStockProduct = mn,
       totalQuantity = t, averageQuantity = double_div (sint t) (sint c)\<rparr>"
    by (simp add: analyzeProducts_def Let_def run loop2_rev_filter)
  show "totalQuantity (analyzeProducts xs) = word_of_int (sum_list (map (\<lambda>p. sint (quantity p)) xs))"
    by (simp add: unfold t)
  show "averageQuantity (analyzeProducts xs) =
     double_div (sint (totalQuantity (analyzeProducts xs)))
       (sint (word_of_int (int (length xs)) :: c_int))"
    by (simp add: unfold c)
  show "lowStockProducts (analyzeProducts xs) =
     rev (filter (\<lambda>p. int_lt_double (sint (quantity p)) (averageQuantity (analyzeProducts xs))) xs)"
    by (simp add: unfold)
  show "highStockProducts (analyzeProducts xs) =
     rev (filter (\<lambda>p. int_gt_double (sint (quantity p)) (averageQuantity (analyzeProducts xs))) xs)"
    by (simp add: unfold)
  show "maxStockProduct (analyzeProducts xs) =
     fst (snd (snd (analyzeProducts_loop1 xs 0 0 None None)))"
    by (simp add: unfold run)
  show "minStockProduct (analyzeProducts xs) =
     snd (snd (snd (analyzeProducts_loop1 xs 0 0 None None)))"
    by (simp add: unfold run)
qed






text \<open>
  Claim C8 (as amended). Each qualifying product is put at the head of its result list,
  so the low-stock list holds the products whose quantity is below the average
  returned, and the high-stock list those above it, in the reverse of the order in
  which the collection is traversed.
\<close>

theorem analyzeProducts_lists_reversed:
  "lowStockProducts (analyzeProducts xs) =
     rev (filter (\<lambda>p. int_lt_double (sint (quantity p)) (averageQuantity (analyzeProducts xs))) xs)
   \<and> highStockProducts (analyzeProducts xs) =
     rev (filter (\<lambda>p. int_gt_double (sint (quantity p)) (averageQuantity (analyzeProducts xs))) xs)"
  using analyzeProducts_fields(3,4) [of xs] by simp

theorem analyzeProducts_lists_reversed_witness:
  "lowStockProducts (analyzeProducts
       [\<lparr>productId = 3, name = ''Screwdriver'', quantity = 5, category = ''Screwdriver''\<rparr>,
        \<lparr>productId = 2, name = ''Nail'', quantity = 100, category = ''Nail''\<rparr>,
        \<lparr>productId = 1, name = ''Hammer'', quantity = 10, category = ''Hammer''\<rparr>]) =
       [\<lparr>productId = 1, name = ''Hammer'', quantity = 10, category = ''Hammer''\<rparr>,
        \<lparr>productId = 3, name = ''Screwdriver'', quantity = 5, category = ''Screwdriver''\<rparr>]
   \<and> highStockProducts (analyzeProducts
       [\<lparr>productId = 3, name = ''Screwdriver'', quantity = 5, category = ''Screwdriver''\<rparr>,
        \<lparr>productId = 2, name = ''Nail'', quantity = 100, category = ''Nail''\<rparr>,
        \<lparr>productId = 1, name = ''Hammer'', quantity = 10, category = ''Hammer''\<rparr>]) =
       [\<lparr>productId = 2, name = ''Nail'', quantity = 100, category = ''Nail''\<rparr>]"
proof -
  let ?xs = "[\<lparr>productId = 3, name = ''Screwdriver'', quantity = 5, category = ''Screwdriver''\<rparr>,
        \<lparr>productId = 2, name = ''Nail'', quantity = 100, category = ''Nail''\<rparr>,
        \<lparr>productId = 1, name = ''Hammer'', quantity = 10, category = ''Hammer''\<rparr>]"
  have avg: "averageQuantity (analyzeProducts ?xs) = Finite (5394937053620907 / 140737488355328)"
    by (simp add: analyzeProducts_def double_div_eval)
  from analyzeProducts_lists_reversed [of ?xs] show ?thesis
    unfolding avg by simp
qed

text \<open>
  The claim as stated asks for the traversal order. In the collection Screwdriver,
  Nail, Hammer the low-stock products are met in the order Screwdriver, Hammer; the
  list returned is Hammer, Screwdriver.
\<close>

theorem analyzeProducts_order_counterexample:
  "lowStockProducts (analyzeProducts
       [\<lparr>productId = 3, name = ''Screwdriver'', quantity = 5, category = ''Screwdriver''\<rparr>,
        \<lparr>productId = 2, name = ''Nail'', quantity = 100, category = ''Nail''\<rparr>,
        \<lparr>productId = 1, name = ''Hammer'', quantity = 10, category = ''Hammer''\<rparr>]) =
       [\<lparr>productId = 1, name = ''Hammer'', quantity = 10, category = ''Hammer''\<rparr>,
        \<lparr>productId = 3, name = ''Screwdriver'', quantity = 5, category = ''Screwdriver''\<rparr>]
   \<and> lowStockProducts (analyzeProducts
       [\<lparr>productId = 3, name = ''Screwdriver'', quantity = 5, category = ''Screwdriver''\<rparr>,
        \<lparr>productId = 2, name = ''Nail'', quantity = 100, category = ''Nail''\<rparr>,
        \<lparr>productId = 1, name = ''Hammer'', quantity = 10, category = ''Hammer''\<rparr>]) \<noteq>
       [\<lparr>productId = 3, name = ''Screwdriver'', quantity = 5, category = ''Screwdriver''\<rparr>,
        \<lparr>productId = 1, name = ''Hammer'', quantity = 10, category = ''Hammer''\<rparr>]"
  by (simp add: analyzeProducts_def double_div_eval)

end
